theory Spec2Isabelle
  imports Main "HOL-Library.Word" "HOL-Library.Sublist"
begin

unbundle bit_operations_syntax

section \<open>Python values, errors and strings\<close>

text \<open>
  The embedding follows \<^verbatim>\<open>encoder.py\<close>.  A Python \<^verbatim>\<open>str\<close> is a list of code points;
  it is modelled as a \<^typ>\<open>string\<close> whose characters are the code points U+0000 to U+00FF,
  with the character classes and the case mapping that Python 3 gives to that range.
  Exceptions are values of \<open>error\<close>; a function that can raise returns \<open>error + 'a\<close>.
\<close>

datatype error = AttributeError | TypeError | ValueError

text \<open>
  The values an entry read from JSON can hold.  \<open>PObj\<close> stands for the remaining kinds
  (a float, a nested object); it carries what \<^verbatim>\<open>str()\<close> returns for the value.
\<close>

datatype pyval =
    PNone
  | PBool bool
  | PInt int
  | PStr string
  | PList "pyval list"
  | PObj string

definition code :: "char \<Rightarrow> nat" where
  "code c = of_char c"

text \<open>\<^verbatim>\<open>str.isspace\<close>, the class \<^verbatim>\<open>\s\<close> and the separators of \<^verbatim>\<open>str.split()\<close>.\<close>

definition py_isspace :: "char \<Rightarrow> bool" where
  "py_isspace c =
     (let n = code c
      in (9 \<le> n \<and> n \<le> 13) \<or> (28 \<le> n \<and> n \<le> 32) \<or> n = 133 \<or> n = 160)"

text \<open>The class \<^verbatim>\<open>\w\<close> on a \<^verbatim>\<open>str\<close> pattern: alphanumeric code points and the underscore.\<close>

definition py_isword :: "char \<Rightarrow> bool" where
  "py_isword c =
     (let n = code c
      in (48 \<le> n \<and> n \<le> 57) \<or> (65 \<le> n \<and> n \<le> 90) \<or> n = 95 \<or> (97 \<le> n \<and> n \<le> 122)
         \<or> n = 170 \<or> n = 178 \<or> n = 179 \<or> n = 181 \<or> n = 185 \<or> n = 186
         \<or> (188 \<le> n \<and> n \<le> 190) \<or> (192 \<le> n \<and> n \<le> 214) \<or> (216 \<le> n \<and> n \<le> 246)
         \<or> (248 \<le> n \<and> n \<le> 255))"

text \<open>\<^verbatim>\<open>str.lower\<close>: A to Z and the upper-case letters of Latin-1 move up by 32.\<close>

definition lower_char :: "char \<Rightarrow> char" where
  "lower_char c =
     (let n = code c
      in if (65 \<le> n \<and> n \<le> 90) \<or> (192 \<le> n \<and> n \<le> 214) \<or> (216 \<le> n \<and> n \<le> 222)
         then char_of (n + 32) else c)"

definition lower :: "string \<Rightarrow> string" where
  "lower s = map lower_char s"

text \<open>The classes \<^verbatim>\<open>[a-z]\<close> and \<^verbatim>\<open>[a-z0-9]\<close>.\<close>

definition is_az :: "char \<Rightarrow> bool" where
  "is_az c = (let n = code c in 97 \<le> n \<and> n \<le> 122)"

definition is_az09 :: "char \<Rightarrow> bool" where
  "is_az09 c = (let n = code c in (97 \<le> n \<and> n \<le> 122) \<or> (48 \<le> n \<and> n \<le> 57))"

text \<open>\<^verbatim>\<open>re.sub(r"[^\w\s]", "", s)\<close> deletes every character that is neither.\<close>

definition strip_punct :: "string \<Rightarrow> string" where
  "strip_punct s = filter (\<lambda>c. py_isword c \<or> py_isspace c) s"

text \<open>\<^verbatim>\<open>re.sub(r"[^a-z]", "", w)\<close>.\<close>

definition clean_word :: "string \<Rightarrow> string" where
  "clean_word w = filter is_az w"

text \<open>
  \<^verbatim>\<open>s.split()\<close>: the maximal runs of non-space characters, in order.  \<open>split_from cur s\<close>
  scans \<open>s\<close> with the token \<open>cur\<close> begun so far.
\<close>

fun split_from :: "string \<Rightarrow> string \<Rightarrow> string list" where
  "split_from cur [] = (if cur = [] then [] else [cur])"
| "split_from cur (c # cs) =
     (if py_isspace c
      then (if cur = [] then split_from [] cs else cur # split_from [] cs)
      else split_from (cur @ [c]) cs)"

definition split :: "string \<Rightarrow> string list" where
  "split s = split_from [] s"

text \<open>\<^verbatim>\<open>" ".join(ws)\<close> on a list of strings.\<close>

fun join :: "string list \<Rightarrow> string" where
  "join [] = []"
| "join [w] = w"
| "join (w # ws) = w @ CHR '' '' # join ws"

text \<open>\<^verbatim>\<open>d.get(key, default)\<close> on a dictionary.\<close>

definition dict_get :: "('k \<rightharpoonup> 'v) \<Rightarrow> 'k \<Rightarrow> 'v \<Rightarrow> 'v" where
  "dict_get d k dflt = (case d k of None \<Rightarrow> dflt | Some v \<Rightarrow> v)"

section \<open>Decimal and hexadecimal numerals\<close>

definition digit_char :: "nat \<Rightarrow> char" where
  "digit_char d = ''0123456789abcdef'' ! (d mod 16)"

text \<open>
  \<^verbatim>\<open>str(n)\<close> for an integer \<open>n \<ge> 0\<close>: its decimal digits, most significant first.
  Python's integers are unbounded, so the numbers are of type \<^typ>\<open>int\<close>.
\<close>

function str_digits :: "int \<Rightarrow> string" where
  "str_digits n =
     (if n < 10 then [digit_char (nat n)]
      else str_digits (n div 10) @ [digit_char (nat (n mod 10))])"
  by pat_completeness auto
termination
  by (relation "measure nat") auto

declare str_digits.simps [simp del]

definition str_int :: "int \<Rightarrow> string" where
  "str_int i = (if i < 0 then CHR ''-'' # str_digits (- i) else str_digits i)"

text \<open>The format \<^verbatim>\<open>{n:08d}\<close> for \<open>n \<ge> 0\<close>: zeros on the left up to width 8, never a cut.\<close>

definition format_08d :: "int \<Rightarrow> string" where
  "format_08d n = (let s = str_digits n in replicate (8 - length s) CHR ''0'' @ s)"

text \<open>
  \<^verbatim>\<open>int(s, 16)\<close> on a string of hexadecimal digits.  Any other character, and the empty
  string, raise \<^verbatim>\<open>ValueError\<close>.  (Python also accepts a sign, a \<^verbatim>\<open>0x\<close> prefix, underscores and
  surrounding blanks; a hex digest holds none of them.)
\<close>

definition hex_val :: "char \<Rightarrow> nat option" where
  "hex_val c =
     (let n = code c
      in if 48 \<le> n \<and> n \<le> 57 then Some (n - 48)
         else if 97 \<le> n \<and> n \<le> 102 then Some (n - 87)
         else if 65 \<le> n \<and> n \<le> 70 then Some (n - 55)
         else None)"

fun hex_acc :: "int \<Rightarrow> string \<Rightarrow> error + int" where
  "hex_acc acc [] = Inr acc"
| "hex_acc acc (c # cs) =
     (case hex_val c of None \<Rightarrow> Inl ValueError | Some d \<Rightarrow> hex_acc (16 * acc + int d) cs)"

definition int_base16 :: "string \<Rightarrow> error + int" where
  "int_base16 s = (if s = [] then Inl ValueError else hex_acc 0 s)"

section \<open>MD5 (\<^verbatim>\<open>hashlib.md5\<close>, RFC 1321)\<close>

type_synonym u8 = "8 word"
type_synonym u32 = "32 word"

text \<open>\<^verbatim>\<open>str.encode()\<close>: UTF-8; a code point below 128 is one byte, one below 256 is two.\<close>

definition utf8_char :: "char \<Rightarrow> u8 list" where
  "utf8_char c =
     (let n = code c
      in if n < 128 then [of_nat n] else [of_nat (192 + n div 64), of_nat (128 + n mod 64)])"

definition encode :: "string \<Rightarrow> u8 list" where
  "encode s = concat (map utf8_char s)"

definition md5_s :: "nat list" where
  "md5_s = [7, 12, 17, 22, 7, 12, 17, 22, 7, 12, 17, 22, 7, 12, 17, 22,
            5, 9, 14, 20, 5, 9, 14, 20, 5, 9, 14, 20, 5, 9, 14, 20,
            4, 11, 16, 23, 4, 11, 16, 23, 4, 11, 16, 23, 4, 11, 16, 23,
            6, 10, 15, 21, 6, 10, 15, 21, 6, 10, 15, 21, 6, 10, 15, 21]"

definition md5_K :: "u32 list" where
  "md5_K =
     [0xd76aa478, 0xe8c7b756, 0x242070db, 0xc1bdceee, 0xf57c0faf, 0x4787c62a, 0xa8304613,
      0xfd469501, 0x698098d8, 0x8b44f7af, 0xffff5bb1, 0x895cd7be, 0x6b901122, 0xfd987193,
      0xa679438e, 0x49b40821, 0xf61e2562, 0xc040b340, 0x265e5a51, 0xe9b6c7aa, 0xd62f105d,
      0x02441453, 0xd8a1e681, 0xe7d3fbc8, 0x21e1cde6, 0xc33707d6, 0xf4d50d87, 0x455a14ed,
      0xa9e3e905, 0xfcefa3f8, 0x676f02d9, 0x8d2a4c8a, 0xfffa3942, 0x8771f681, 0x6d9d6122,
      0xfde5380c, 0xa4beea44, 0x4bdecfa9, 0xf6bb4b60, 0xbebfbc70, 0x289b7ec6, 0xeaa127fa,
      0xd4ef3085, 0x04881d05, 0xd9d4d039, 0xe6db99e5, 0x1fa27cf8, 0xc4ac5665, 0xf4292244,
      0x432aff97, 0xab9423a7, 0xfc93a039, 0x655b59c3, 0x8f0ccc92, 0xffeff47d, 0x85845dd1,
      0x6fa87e4f, 0xfe2ce6e0, 0xa3014314, 0x4e0811a1, 0xf7537e82, 0xbd3af235, 0x2ad7d2bb,
      0xeb86d391]"

type_synonym md5_state = "u32 \<times> u32 \<times> u32 \<times> u32"

definition md5_init :: md5_state where
  "md5_init = (0x67452301, 0xefcdab89, 0x98badcfe, 0x10325476)"

text \<open>One of the 64 operations on a block \<open>M\<close> of sixteen words.\<close>

fun md5_round :: "u32 list \<Rightarrow> md5_state \<Rightarrow> nat \<Rightarrow> md5_state" where
  "md5_round M (A, B, C, D) i =
     (let (F, g) =
        (if i < 16 then ((B AND C) OR (NOT B AND D), i)
         else if i < 32 then ((D AND B) OR (NOT D AND C), (5 * i + 1) mod 16)
         else if i < 48 then (B XOR C XOR D, (3 * i + 5) mod 16)
         else (C XOR (B OR NOT D), (7 * i) mod 16));
          F' = F + A + md5_K ! i + M ! g
      in (D, B + word_rotl (md5_s ! i) F', B, C))"

definition md5_block :: "md5_state \<Rightarrow> u32 list \<Rightarrow> md5_state" where
  "md5_block st M =
     (case (st, foldl (md5_round M) st [0..<64]) of
        ((a0, b0, c0, d0), (A, B, C, D)) \<Rightarrow> (a0 + A, b0 + B, c0 + C, d0 + D))"

text \<open>Little-endian bytes of a number, and the word of four little-endian bytes.\<close>

fun le_bytes :: "nat \<Rightarrow> int \<Rightarrow> u8 list" where
  "le_bytes 0 n = []"
| "le_bytes (Suc k) n = of_int (n mod 256) # le_bytes k (n div 256)"

fun le_word :: "u8 list \<Rightarrow> u32" where
  "le_word [] = 0"
| "le_word (b # bs) = ucast b + 256 * le_word bs"

text \<open>
  Padding: the byte 0x80, zero bytes up to 56 modulo 64, then the length of the message
  in bits as eight little-endian bytes.
\<close>

definition md5_pad :: "u8 list \<Rightarrow> u8 list" where
  "md5_pad bs =
     bs @ [0x80] @ replicate ((119 - length bs mod 64) mod 64) 0
        @ le_bytes 8 ((8 * int (length bs)) mod 2 ^ 64)"

fun chunks :: "nat \<Rightarrow> nat \<Rightarrow> 'a list \<Rightarrow> 'a list list" where
  "chunks 0 k xs = []"
| "chunks (Suc n) k xs = take k xs # chunks n k (drop k xs)"

definition md5_blocks :: "u8 list \<Rightarrow> u32 list list" where
  "md5_blocks bs =
     map (\<lambda>blk. map le_word (chunks 16 4 blk)) (chunks (length bs div 64) 64 bs)"

definition md5_digest :: "u8 list \<Rightarrow> u8 list" where
  "md5_digest bs =
     (case foldl md5_block md5_init (md5_blocks (md5_pad bs)) of
        (a, b, c, d) \<Rightarrow> concat (map (\<lambda>w. le_bytes 4 (uint w)) [a, b, c, d]))"

definition hex_byte :: "u8 \<Rightarrow> string" where
  "hex_byte b = [digit_char (nat (uint b div 16)), digit_char (nat (uint b mod 16))]"

definition hexdigest :: "u8 list \<Rightarrow> string" where
  "hexdigest bs = concat (map hex_byte (md5_digest bs))"

section \<open>The lookup tables\<close>

definition USAGE_BANDS :: "string \<rightharpoonup> string" where
  "USAGE_BANDS = map_of
     [(''none'', ''inactive''), (''zero'', ''inactive''), (''no'', ''inactive''),
      (''inactive'', ''inactive''),
      (''dropping'', ''declining''), (''declining'', ''declining''),
      (''decreasing'', ''declining''),
      (''fewer'', ''declining''), (''less'', ''declining''), (''reduced'', ''declining''),
      (''low'', ''declining''),
      (''steady'', ''stable''), (''stable'', ''stable''), (''normal'', ''stable''),
      (''average'', ''stable''),
      (''increasing'', ''growing''), (''growing'', ''growing''), (''more'', ''growing''),
      (''high'', ''growing''),
      (''active'', ''growing''), (''frequent'', ''growing'')]"

definition CHURN_DRIVERS :: "string \<rightharpoonup> string" where
  "CHURN_DRIVERS = map_of
     [(''login'', ''low_usage''), (''usage'', ''low_usage''), (''logins'', ''low_usage''),
      (''session'', ''low_usage''), (''activity'', ''low_usage''),
      (''support'', ''support_burden''), (''ticket'', ''support_burden''),
      (''case'', ''support_burden''),
      (''cases'', ''support_burden''), (''escalation'', ''support_burden''),
      (''defect'', ''defect_frustration''), (''bug'', ''defect_frustration''),
      (''crash'', ''defect_frustration''),
      (''error'', ''defect_frustration''), (''broken'', ''defect_frustration''),
      (''defects'', ''defect_frustration''),
      (''feature'', ''low_adoption''), (''adoption'', ''low_adoption''),
      (''onboard'', ''onboarding_stall''),
      (''billing'', ''billing_friction''), (''payment'', ''billing_friction''),
      (''invoice'', ''billing_friction''),
      (''price'', ''billing_friction''), (''cost'', ''billing_friction'')]"

text \<open>A dictionary iterates in insertion order: the levels are kept as a list of pairs.\<close>

definition HIGH_TRIGGERS :: "string list" where
  "HIGH_TRIGGERS =
     [''churn'', ''cancel'', ''leaving'', ''at risk'', ''critical'', ''red'', ''danger'',
      ''inactive'', ''zero logins'', ''no activity'', ''escalat'']"

definition MEDIUM_TRIGGERS :: "string list" where
  "MEDIUM_TRIGGERS =
     [''declining'', ''dropping'', ''fewer'', ''reduced'', ''warning'', ''yellow'',
      ''slowing'', ''less active'', ''some risk'']"

definition LOW_TRIGGERS :: "string list" where
  "LOW_TRIGGERS =
     [''stable'', ''growing'', ''healthy'', ''green'', ''active'', ''engaged'',
      ''retained'', ''happy'', ''renew'']"

definition RISK_KEYWORDS :: "(string \<times> string list) list" where
  "RISK_KEYWORDS =
     [(''high'', HIGH_TRIGGERS), (''medium'', MEDIUM_TRIGGERS), (''low'', LOW_TRIGGERS)]"

definition STOP_WORDS :: "string list" where
  "STOP_WORDS =
     [''how'', ''do'', ''i'', ''a'', ''the'', ''to'', ''is'', ''what'', ''my'', ''an'',
      ''can'', ''does'', ''it'', ''in'', ''on'', ''for'', ''with'', ''me'', ''about'',
      ''are'', ''which'', ''who'', ''will'', ''their'', ''this'', ''that'', ''of'']"

section \<open>The query helpers\<close>

text \<open>The loop of \<^verbatim>\<open>_infer_risk\<close> over the items of the dictionary; \<^verbatim>\<open>t in text\<close> is \<open>sublist\<close>.\<close>

fun risk_loop :: "(string \<times> string list) list \<Rightarrow> string \<Rightarrow> string" where
  "risk_loop [] text = ''medium''"
| "risk_loop ((level, triggers) # rest) text =
     (if list_ex (\<lambda>t. sublist t text) triggers then level else risk_loop rest text)"

definition infer_risk :: "string list \<Rightarrow> string" where
  "infer_risk words = (let text = join words in risk_loop RISK_KEYWORDS text)"

fun infer_driver :: "string list \<Rightarrow> string" where
  "infer_driver [] = ''low_usage''"
| "infer_driver (w # ws) =
     (let clean = clean_word w
      in case CHURN_DRIVERS clean of Some d \<Rightarrow> d | None \<Rightarrow> infer_driver ws)"

fun infer_usage_band :: "string list \<Rightarrow> string" where
  "infer_usage_band [] = ''stable''"
| "infer_usage_band (w # ws) =
     (let clean = clean_word w
      in case USAGE_BANDS clean of Some b \<Rightarrow> b | None \<Rightarrow> infer_usage_band ws)"

section \<open>\<^verbatim>\<open>encode_query\<close>\<close>

text \<open>
  The attribute dictionary is a record of Python values.  The two results carry their
  attributes under the key \<^verbatim>\<open>attributes\<close>; the record result's field is \<open>rec_attributes\<close>
  and the metadata's two copies are \<open>meta_risk_level\<close> and \<open>meta_churn_driver\<close>, since
  field names are global; the key \<^verbatim>\<open>keywords\<close> is the field \<open>keywords_attr\<close>.
\<close>

record attributes =
  customer_id :: pyval
  risk_level :: pyval
  churn_driver :: pyval
  usage_band :: pyval
  keywords_attr :: pyval
  logins :: pyval
  support_cases :: pyval
  defects :: pyval
  feature_adoption :: pyval

record query_result =
  name :: string
  attributes :: attributes

definition query_words :: "string \<Rightarrow> string list" where
  "query_words query = (let cleaned = strip_punct (lower query) in split cleaned)"

definition keywords_of :: "string list \<Rightarrow> string" where
  "keywords_of words = join (filter (\<lambda>w. w \<notin> set STOP_WORDS) words)"

definition stable_id :: "string \<Rightarrow> error + int" where
  "stable_id query = int_base16 (take 8 (hexdigest (encode query)))"

definition encode_query :: "string \<Rightarrow> error + query_result" where
  "encode_query query =
     (let words = query_words query;
          risk = infer_risk words;
          driver = infer_driver words;
          usage = infer_usage_band words;
          kw = keywords_of words
      in case stable_id query of
           Inl e \<Rightarrow> Inl e
         | Inr sid \<Rightarrow>
             Inr \<lparr>name = ''query_'' @ format_08d sid,
                  attributes =
                    \<lparr>customer_id = PStr [],
                     risk_level = PStr risk,
                     churn_driver = PStr driver,
                     usage_band = PStr usage,
                     keywords_attr = PStr kw,
                     logins = PInt 50,
                     support_cases = PInt 2,
                     defects = PInt 1,
                     feature_adoption = PInt 50\<rparr>\<rparr>)"

section \<open>\<^verbatim>\<open>entry_to_record\<close>\<close>

type_synonym entry = "string \<rightharpoonup> pyval"

record metadata =
  response :: pyval
  meta_risk_level :: pyval
  meta_churn_driver :: pyval
  recommended_action :: pyval
  original_question :: string

record record_result =
  concept_text :: string
  rec_attributes :: attributes
  metadata :: metadata

text \<open>The method call \<^verbatim>\<open>v.lower()\<close>: only a \<^verbatim>\<open>str\<close> has the method.\<close>

fun call_lower :: "pyval \<Rightarrow> error + string" where
  "call_lower (PStr s) = Inr (lower s)"
| "call_lower v = Inl AttributeError"

text \<open>\<^verbatim>\<open>" ".join(items)\<close> raises \<^verbatim>\<open>TypeError\<close> at the first item that is not a \<^verbatim>\<open>str\<close>.\<close>

fun str_items :: "pyval list \<Rightarrow> error + string list" where
  "str_items [] = Inr []"
| "str_items (PStr s # vs) =
     (case str_items vs of Inl e \<Rightarrow> Inl e | Inr ss \<Rightarrow> Inr (s # ss))"
| "str_items (v # vs) = Inl TypeError"

text \<open>
  \<^verbatim>\<open>" ".join(kw_list) if isinstance(kw_list, list) else str(kw_list)\<close>: the first equation
  is the list branch, the others are \<^verbatim>\<open>str()\<close> on each other kind of value.
\<close>

fun kw_str_of :: "pyval \<Rightarrow> error + string" where
  "kw_str_of (PList vs) = (case str_items vs of Inl e \<Rightarrow> Inl e | Inr ss \<Rightarrow> Inr (join ss))"
| "kw_str_of PNone = Inr ''None''"
| "kw_str_of (PBool b) = Inr (if b then ''True'' else ''False'')"
| "kw_str_of (PInt i) = Inr (str_int i)"
| "kw_str_of (PStr s) = Inr s"
| "kw_str_of (PObj s) = Inr s"

text \<open>
  The slug \<^verbatim>\<open>re.sub(r"[^a-z0-9]+", "_", question).strip("_")[:40]\<close>.  The flag of
  \<open>sub_runs\<close> says that the scan is inside a run that has already given its underscore.
\<close>

fun sub_runs :: "bool \<Rightarrow> string \<Rightarrow> string" where
  "sub_runs inrun [] = []"
| "sub_runs inrun (c # cs) =
     (if is_az09 c then c # sub_runs False cs
      else if inrun then sub_runs True cs
      else CHR ''_'' # sub_runs True cs)"

definition strip_underscores :: "string \<Rightarrow> string" where
  "strip_underscores s =
     rev (dropWhile (\<lambda>c. c = CHR ''_'') (rev (dropWhile (\<lambda>c. c = CHR ''_'') s)))"

definition slug_of :: "string \<Rightarrow> string" where
  "slug_of question = take 40 (strip_underscores (sub_runs False question))"

text \<open>The slug is computed and then not used by the function, as in the source.\<close>

definition entry_to_record :: "entry \<Rightarrow> error + record_result" where
  "entry_to_record entry =
     (case call_lower (dict_get entry ''question'' (PStr [])) of
        Inl e \<Rightarrow> Inl e
      | Inr question \<Rightarrow>
          let customer = dict_get entry ''customer_id'' (PStr []);
              risk = dict_get entry ''risk_level'' (PStr ''medium'');
              driver = dict_get entry ''churn_driver'' (PStr ''low_usage'');
              usage = dict_get entry ''usage_band'' (PStr ''stable'');
              kw_list = dict_get entry ''keywords'' (PList [])
          in case kw_str_of kw_list of
               Inl e \<Rightarrow> Inl e
             | Inr kw_str \<Rightarrow>
                 let slug = slug_of question
                 in Inr \<lparr>concept_text = question,
                         rec_attributes =
                           \<lparr>customer_id = customer,
                            risk_level = risk,
                            churn_driver = driver,
                            usage_band = usage,
                            keywords_attr = PStr kw_str,
                            logins = dict_get entry ''logins'' (PInt 50),
                            support_cases = dict_get entry ''support_cases'' (PInt 2),
                            defects = dict_get entry ''defects'' (PInt 1),
                            feature_adoption = dict_get entry ''feature_adoption'' (PInt 50)\<rparr>,
                         metadata =
                           \<lparr>response = dict_get entry ''response'' (PStr []),
                            meta_risk_level = risk,
                            meta_churn_driver = driver,
                            recommended_action = dict_get entry ''recommended_action'' (PStr []),
                            original_question = question\<rparr>\<rparr>)"

section \<open>The stable identifier is always defined\<close>

lemma lt16_cases:
  "(d::nat) < 16 \<Longrightarrow> d = 0 \<or> d = 1 \<or> d = 2 \<or> d = 3 \<or> d = 4 \<or> d = 5 \<or> d = 6 \<or> d = 7 \<or> d = 8
     \<or> d = 9 \<or> d = 10 \<or> d = 11 \<or> d = 12 \<or> d = 13 \<or> d = 14 \<or> d = 15"
  by arith

lemma hex_val_digit_char:
  assumes "d < 16"
  shows "hex_val (digit_char d) = Some d"
  using lt16_cases [OF assms] by (elim disjE) (simp_all add: hex_val_def digit_char_def code_def)

lemma uint_u8_div16: "nat (uint (b :: u8) div 16) < 16"
proof -
  have "uint b < 256" using uint_bounded [of b] by simp
  moreover have "0 \<le> uint b" by simp
  ultimately show ?thesis by linarith
qed

lemma uint_u8_mod16: "nat (uint (b :: u8) mod 16) < 16"
  by (simp add: nat_less_iff)

lemma hex_acc_hex_byte:
  "hex_acc acc (hex_byte b @ rest) = hex_acc (256 * acc + uint b) rest"
proof -
  have e: "16 * (16 * acc + uint b div 16) + uint b mod 16 = 256 * acc + uint b"
    by (simp add: algebra_simps)
  have n1: "int (nat (uint b div 16)) = uint b div 16"
    by (simp add: pos_imp_zdiv_nonneg_iff)
  have n2: "int (nat (uint b mod 16)) = uint b mod 16"
    by simp
  have "hex_acc acc (hex_byte b @ rest)
          = hex_acc (16 * (16 * acc + uint b div 16) + uint b mod 16) rest"
    by (simp add: hex_byte_def hex_val_digit_char uint_u8_div16 uint_u8_mod16 n1 n2
          del: int_nat_eq)
  then show ?thesis
    by (simp only: e)
qed

lemma le_bytes_4:
  "le_bytes 4 n =
     [of_int (n mod 256), of_int (n div 256 mod 256), of_int (n div 256 div 256 mod 256),
      of_int (n div 256 div 256 div 256 mod 256)]"
  by (simp add: numeral_eq_Suc)

lemma md5_digest_shape:
  "\<exists>(a::u32) (b::u32) (c::u32) (d::u32). md5_digest bs =
     le_bytes 4 (uint a) @ le_bytes 4 (uint b) @ le_bytes 4 (uint c) @ le_bytes 4 (uint d)"
proof -
  obtain a b c d where "foldl md5_block md5_init (md5_blocks (md5_pad bs)) = (a, b, c, d)"
    using prod_cases4 by blast
  then have "md5_digest bs =
     le_bytes 4 (uint a) @ le_bytes 4 (uint b) @ le_bytes 4 (uint c) @ le_bytes 4 (uint d)"
    by (simp add: md5_digest_def del: le_bytes.simps)
  then show ?thesis by blast
qed

lemma le_bytes_4_shape: "\<exists>x0 x1 x2 x3. le_bytes 4 n = [x0, x1, x2, x3]"
  by (simp add: le_bytes_4)

lemma take8_hex_bytes:
  "take 8 (hex_byte b0 @ hex_byte b1 @ hex_byte b2 @ hex_byte b3 @ r)
     = hex_byte b0 @ hex_byte b1 @ hex_byte b2 @ hex_byte b3"
  by (simp add: hex_byte_def)

lemma take8_hexdigest:
  "\<exists>(b0::u8) (b1::u8) (b2::u8) (b3::u8).
     take 8 (hexdigest bs) = hex_byte b0 @ hex_byte b1 @ hex_byte b2 @ hex_byte b3"
proof -
  obtain a b c d :: u32 where
    dg: "md5_digest bs =
       le_bytes 4 (uint a) @ le_bytes 4 (uint b) @ le_bytes 4 (uint c) @ le_bytes 4 (uint d)"
    using md5_digest_shape by blast
  obtain x0 x1 x2 x3 where x: "le_bytes 4 (uint a) = [x0, x1, x2, x3]"
    using le_bytes_4_shape by blast
  have "hexdigest bs = hex_byte x0 @ hex_byte x1 @ hex_byte x2 @ hex_byte x3
          @ concat (map hex_byte
              (le_bytes 4 (uint b) @ le_bytes 4 (uint c) @ le_bytes 4 (uint d)))"
    unfolding hexdigest_def dg x by simp
  then have "take 8 (hexdigest bs) = hex_byte x0 @ hex_byte x1 @ hex_byte x2 @ hex_byte x3"
    by (simp only: take8_hex_bytes)
  then show ?thesis by blast
qed

lemma stable_id_value:
  "\<exists>(b0::u8) (b1::u8) (b2::u8) (b3::u8).
     stable_id q = Inr (((uint b0 * 256 + uint b1) * 256 + uint b2) * 256 + uint b3)"
proof -
  obtain b0 b1 b2 b3 :: u8 where
    t: "take 8 (hexdigest (encode q)) = hex_byte b0 @ hex_byte b1 @ hex_byte b2 @ hex_byte b3"
    using take8_hexdigest by blast
  have ne: "hex_byte b0 @ hex_byte b1 @ hex_byte b2 @ hex_byte b3 \<noteq> []"
    by (simp add: hex_byte_def)
  have "hex_acc 0 (hex_byte b0 @ hex_byte b1 @ hex_byte b2 @ hex_byte b3 @ [])
          = Inr (((uint b0 * 256 + uint b1) * 256 + uint b2) * 256 + uint b3)"
    by (simp only: hex_acc_hex_byte hex_acc.simps) (simp add: algebra_simps)
  then show ?thesis
    using t ne by (auto simp: stable_id_def int_base16_def)
qed

lemma stable_id_range: "\<exists>sid. stable_id q = Inr sid \<and> 0 \<le> sid \<and> sid < 2 ^ 32"
proof -
  obtain b0 b1 b2 b3 :: u8 where
    s: "stable_id q = Inr (((uint b0 * 256 + uint b1) * 256 + uint b2) * 256 + uint b3)"
    using stable_id_value by blast
  have "uint b0 < 256" "uint b1 < 256" "uint b2 < 256" "uint b3 < 256"
    using uint_bounded [of b0] uint_bounded [of b1] uint_bounded [of b2] uint_bounded [of b3]
    by simp_all
  moreover have "0 \<le> uint b0" "0 \<le> uint b1" "0 \<le> uint b2" "0 \<le> uint b3"
    by simp_all
  ultimately show ?thesis using s by simp
qed

lemma encode_query_returns:
  "\<exists>sid. stable_id q = Inr sid \<and> 0 \<le> sid \<and> sid < 2 ^ 32 \<and>
     encode_query q = Inr \<lparr>name = ''query_'' @ format_08d sid,
       attributes = \<lparr>customer_id = PStr [],
         risk_level = PStr (infer_risk (query_words q)),
         churn_driver = PStr (infer_driver (query_words q)),
         usage_band = PStr (infer_usage_band (query_words q)),
         keywords_attr = PStr (keywords_of (query_words q)),
         logins = PInt 50, support_cases = PInt 2, defects = PInt 1,
         feature_adoption = PInt 50\<rparr>\<rparr>"
proof -
  obtain sid where s: "stable_id q = Inr sid" "0 \<le> sid" "sid < 2 ^ 32"
    using stable_id_range by blast
  then show ?thesis
    by (simp add: encode_query_def Let_def)
qed

section \<open>The record normalizer: metadata\<close>

text \<open>
  Claim C10. For every entry on which \<open>entry_to_record\<close> returns a record, the metadata of
  that record carries the same \<open>risk_level\<close> and \<open>churn_driver\<close> as its attributes
  mapping, and the \<open>original_question\<close> of the metadata is the \<open>concept_text\<close>, which is
  the lowercased question of the entry (the empty string when the entry has none).
\<close>
theorem metadata_mirrors_attributes:
  assumes "entry_to_record entry = Inr r"
  shows "meta_risk_level (metadata r) = risk_level (rec_attributes r)
       \<and> meta_churn_driver (metadata r) = churn_driver (rec_attributes r)
       \<and> original_question (metadata r) = concept_text r
       \<and> call_lower (dict_get entry ''question'' (PStr [])) = Inr (concept_text r)"
  using assms
  by (auto simp: entry_to_record_def Let_def split: sum.splits)

theorem metadata_mirrors_attributes_witness:
  "\<exists>r. entry_to_record [''question'' \<mapsto> PStr ''Why Churn?'', ''risk_level'' \<mapsto> PStr ''high'']
         = Inr r
     \<and> meta_risk_level (metadata r) = PStr ''high''
     \<and> risk_level (rec_attributes r) = PStr ''high''
     \<and> meta_churn_driver (metadata r) = PStr ''low_usage''
     \<and> churn_driver (rec_attributes r) = PStr ''low_usage''
     \<and> original_question (metadata r) = ''why churn?''
     \<and> concept_text r = ''why churn?''"
proof -
  let ?e = "[''question'' \<mapsto> PStr ''Why Churn?'', ''risk_level'' \<mapsto> PStr ''high'']"
  obtain r where r: "entry_to_record ?e = Inr r"
    by (simp add: entry_to_record_def dict_get_def Let_def)
  have l: "lower ''Why Churn?'' = ''why churn?''"
    by code_simp
  have c: "concept_text r = ''why churn?''"
    using r by (auto simp: entry_to_record_def dict_get_def Let_def l)
  have a: "risk_level (rec_attributes r) = PStr ''high''"
          "churn_driver (rec_attributes r) = PStr ''low_usage''"
    using r by (auto simp: entry_to_record_def dict_get_def Let_def)
  from metadata_mirrors_attributes [OF r] r c a show ?thesis
    by simp
qed

end
